theory Spec2Isabelle
  imports Main "HOL-Library.AList"
begin

section \<open>Data model\<close>

text \<open>
  The repository holds three copies of one React component: the current one
  (\<^verbatim>\<open>src/App.tsx\<close>, first component of the file), the copy in \<^verbatim>\<open>part_000\<close>, and an
  older copy (second component of \<^verbatim>\<open>src/App.tsx\<close>, from line 897). A definition without
  suffix embeds the current component; the suffix \<open>_part000\<close> marks the second copy and
  \<open>_legacy\<close> the older one. Where two copies have the same text, one definition serves both.

  Call states are strings: the plugin's event name is cast to \<^verbatim>\<open>CallState\<close> unchecked.
\<close>

type_synonym CallState = string

text \<open>The interface \<^verbatim>\<open>RegistrationPayload\<close>: every property is optional.\<close>

record RegistrationPayload =
  username :: "string option"
  displayName :: "string option"
  authuser :: "string option"
  secret :: "string option"
  proxy :: "string option"
  userAgent :: "string option"
  register :: "bool option"

text \<open>\<^verbatim>\<open>SipPlugin\<close>: the plugin handle with the three properties the component writes.\<close>

record SipPlugin =
  callId :: "string option"
  doAudio :: "bool option"
  doVideo :: "bool option"

text \<open>
  \<^verbatim>\<open>SipPluginResult\<close> and \<^verbatim>\<open>JanusJS.Message\<close>: the properties that the handlers read
  (\<^verbatim>\<open>result.event\<close>, \<^verbatim>\<open>result["username"]\<close>, \<^verbatim>\<open>result["reason"]\<close>, \<^verbatim>\<open>result["code"]\<close>,
  \<^verbatim>\<open>msg.error\<close>, \<^verbatim>\<open>msg["call_id"]\<close>).
\<close>

record SipPluginResult =
  event :: "string option"
  res_username :: "string option"
  res_reason :: "string option"
  res_code :: "int option"

record Message =
  result :: "SipPluginResult option"
  error :: "string option"
  call_id :: "string option"

record JSEP =
  jsep_type :: string
  sdp :: "string option"

text \<open>Values of the properties of an outbound payload.\<close>

datatype jsval =
    Str string
  | Num int
  | Bool bool
  | Undefined
  | Obj "(string \<times> jsval) list"
  | Data Message

text \<open>\<^verbatim>\<open>WebViewMessage\<close>, as the component builds it for the host: a tag and an object literal.\<close>

record WebViewMessage =
  type :: string
  payload :: "(string \<times> jsval) list"

text \<open>
  A message that arrives from the host. The payload is one JSON object: the dispatcher
  reads its \<^verbatim>\<open>phoneNumber\<close> and passes the object itself to \<^verbatim>\<open>handleRegistration\<close>
  (\<^verbatim>\<open>message.payload as RegistrationPayload\<close>), which reads the credential properties.
\<close>

record WebViewPayload =
  phoneNumber :: "string option"
  credentials :: RegistrationPayload

record HostMessage =
  host_type :: string
  host_payload :: "WebViewPayload option"

text \<open>
  \<^verbatim>\<open>TrackState\<close>: an object from identifiers to streams, as an association list. A stream
  is the list of its tracks (\<^verbatim>\<open>new MediaStream([track])\<close>).
\<close>

record MediaStreamTrack =
  track_id :: string
  kind :: string

type_synonym MediaStream = "MediaStreamTrack list"

type_synonym TrackState = "(string \<times> MediaStream) list"

text \<open>
  The state of the component: the \<^verbatim>\<open>useState\<close> cells, and the two variables of the
  initialisation effect (\<^verbatim>\<open>janus\<close>, \<^verbatim>\<open>reconnectAttempts\<close>). \<^verbatim>\<open>isWebViewReady\<close> exists in
  \<^verbatim>\<open>part_000\<close> and in the older copy only; the track cells exist in the current copy only.
\<close>

record AppState =
  sipPlugin :: "SipPlugin option"
  isWebViewReady :: bool
  callState :: CallState
  currentCall :: "string option"
  isRegistered :: bool
  localTracks :: TrackState
  remoteTracks :: TrackState
  localVideos :: int
  remoteVideos :: int
  sipCredentials :: RegistrationPayload
  janus :: bool
  reconnectAttempts :: nat

text \<open>What a handler asks of its collaborators, in program order.\<close>

datatype SipRequest =
    RegisterRequest "string option" "string option" "string option" "string option"
      "string option" "string option" bool
  | UnregisterRequest
  | CallRequest string "(string \<times> string) list option"
  | HangupRequest

text \<open>
  The closure of the two callbacks that \<^verbatim>\<open>makeCall\<close> hands to \<^verbatim>\<open>createOffer\<close>:
  the variables they read.
\<close>

record OfferClosure =
  cl_phoneNumber :: string
  cl_proxyDomain :: "string option"
  cl_userAgent :: "string option"

datatype TimerTask =
    Resend WebViewMessage nat
  | Reinitialize

datatype action =
    SendToWebViewParent WebViewMessage
  | PluginSend SipRequest "JSEP option"
  | CreateOffer "(string \<times> bool \<times> bool option) list" "bool option" OfferClosure
  | HandleRemoteJsep JSEP bool
  | NewJanus
  | Attach
  | SetTimeout TimerTask nat

section \<open>JavaScript primitives\<close>

text \<open>Truthiness of an optional string: \<^verbatim>\<open>undefined\<close> and \<^verbatim>\<open>""\<close> are falsy.\<close>

fun truthy :: "string option \<Rightarrow> bool" where
  "truthy None = False"
| "truthy (Some s) = (s \<noteq> [])"

fun starts_with :: "string \<Rightarrow> string \<Rightarrow> bool" where
  "starts_with [] s = True"
| "starts_with (p # ps) [] = False"
| "starts_with (p # ps) (c # cs) = (p = c \<and> starts_with ps cs)"

text \<open>
  \<^verbatim>\<open>String.prototype.split\<close> with a separator: the text is cut at each occurrence, found
  from left to right without overlap. \<open>cur\<close> holds the current piece, reversed. With the
  empty separator JavaScript returns the characters one by one.
\<close>

function split_from :: "string \<Rightarrow> string \<Rightarrow> string \<Rightarrow> string list" where
  "split_from sep cur [] = [rev cur]"
| "split_from sep cur (c # cs) =
     (if sep \<noteq> [] \<and> starts_with sep (c # cs)
      then rev cur # split_from sep [] (drop (length sep) (c # cs))
      else split_from sep (c # cur) cs)"
  by pat_completeness auto
termination
  by (relation "measure (\<lambda>(sep, cur, s). length s)") auto

definition js_split :: "string \<Rightarrow> string \<Rightarrow> string list" where
  "js_split s sep = (if sep = [] then map (\<lambda>c. [c]) s else split_from sep [] s)"

text \<open>Reading an array by index: out of range is \<^verbatim>\<open>undefined\<close>.\<close>

fun js_index :: "'a list \<Rightarrow> nat \<Rightarrow> 'a option" where
  "js_index [] n = None"
| "js_index (x # xs) 0 = Some x"
| "js_index (x # xs) (Suc n) = js_index xs n"

text \<open>A template literal prints \<^verbatim>\<open>undefined\<close> by its name.\<close>

fun template :: "string option \<Rightarrow> string" where
  "template None = ''undefined''"
| "template (Some s) = s"

text \<open>\<^verbatim>\<open>s.indexOf(p) > -1\<close>.\<close>

fun js_includes :: "string \<Rightarrow> string \<Rightarrow> bool" where
  "js_includes [] p = (p = [])"
| "js_includes (c # cs) p = (starts_with p (c # cs) \<or> js_includes cs p)"

fun of_string :: "string option \<Rightarrow> jsval" where
  "of_string None = Undefined"
| "of_string (Some s) = Str s"

fun of_number :: "int option \<Rightarrow> jsval" where
  "of_number None = Undefined"
| "of_number (Some n) = Num n"

section \<open>Delivery to the host container\<close>

text \<open>
  What \<^verbatim>\<open>window.ReactNativeWebView\<close> does at one attempt: the bridge is absent (the
  optional call does nothing), \<^verbatim>\<open>postMessage\<close> returns, or the attempt throws.
\<close>

datatype bridge = Absent | Delivers | Throws

datatype delivery =
    Posted WebViewMessage
  | Threw WebViewMessage
  | Timer TimerTask nat

text \<open>
  \<^verbatim>\<open>sendToWebViewParent(message, retryCount = 3)\<close>. \<open>env k\<close> is the bridge at the
  \<open>k\<close>-th attempt; the function returns the attempts and timers of the whole call,
  the timers having fired.
\<close>

fun sendToWebViewParent :: "(nat \<Rightarrow> bridge) \<Rightarrow> nat \<Rightarrow> WebViewMessage \<Rightarrow> nat \<Rightarrow> delivery list" where
  "sendToWebViewParent env k message retryCount =
     (case env k of
        Absent \<Rightarrow> []
      | Delivers \<Rightarrow> [Posted message]
      | Throws \<Rightarrow>
          Threw message #
          (if retryCount > 0
           then Timer (Resend message (retryCount - 1)) 1000 #
                sendToWebViewParent env (Suc k) message (retryCount - 1)
           else []))"

declare sendToWebViewParent.simps [simp del]

definition attempts :: "delivery list \<Rightarrow> WebViewMessage list" where
  "attempts ds = concat (map (\<lambda>d. case d of Posted m \<Rightarrow> [m] | Threw m \<Rightarrow> [m] | Timer t n \<Rightarrow> []) ds)"

definition timers :: "delivery list \<Rightarrow> (TimerTask \<times> nat) list" where
  "timers ds = concat (map (\<lambda>d. case d of Timer t n \<Rightarrow> [(t, n)] | _ \<Rightarrow> []) ds)"

section \<open>Commands of the host\<close>

text \<open>Object spread: a property of the right object overrides the one of the left.\<close>

fun override :: "'a option \<Rightarrow> 'a option \<Rightarrow> 'a option" where
  "override old None = old"
| "override old (Some v) = Some v"

fun spread :: "RegistrationPayload \<Rightarrow> RegistrationPayload option \<Rightarrow> RegistrationPayload" where
  "spread a None = a"
| "spread a (Some b) =
     \<lparr>username = override (username a) (username b),
      displayName = override (displayName a) (displayName b),
      authuser = override (authuser a) (authuser b),
      secret = override (secret a) (secret b),
      proxy = override (proxy a) (proxy b),
      userAgent = override (userAgent a) (userAgent b),
      register = override (register a) (register b)\<rparr>"

text \<open>\<^verbatim>\<open>handleRegistration\<close> of the current component and of \<^verbatim>\<open>part_000\<close> (same text).\<close>

definition handleRegistration :: "AppState \<Rightarrow> RegistrationPayload option \<Rightarrow> AppState \<times> action list" where
  "handleRegistration s params =
     (case sipPlugin s of
        None \<Rightarrow>
          (s, [SendToWebViewParent
                 \<lparr>type = ''REGISTRATION_ERROR'',
                  payload = [(''error'', Str ''SIP plugin not found'')]\<rparr>])
      | Some plugin \<Rightarrow>
          if isRegistered s
          then (s, [SendToWebViewParent
                      \<lparr>type = ''REGISTRATION_ERROR'',
                       payload = [(''error'', Str ''Already registered with SIP server'')]\<rparr>])
          else
            let registrationParams = (spread (sipCredentials s) params)\<lparr>register := Some True\<rparr>
            in (s\<lparr>callState := ''registering'', sipCredentials := registrationParams\<rparr>,
                [PluginSend
                   (RegisterRequest (username registrationParams) (displayName registrationParams)
                      (authuser registrationParams) (secret registrationParams)
                      (proxy registrationParams) (userAgent registrationParams) True)
                   None]))"

text \<open>\<^verbatim>\<open>handleRegistration\<close> of the older component (lines 1012 to 1048): no registration check.\<close>

definition handleRegistration_legacy :: "AppState \<Rightarrow> RegistrationPayload option \<Rightarrow> AppState \<times> action list" where
  "handleRegistration_legacy s params =
     (case sipPlugin s of
        None \<Rightarrow>
          (s, [SendToWebViewParent
                 \<lparr>type = ''REGISTRATION_ERROR'',
                  payload = [(''error'', Str ''SIP plugin not found'')]\<rparr>])
      | Some plugin \<Rightarrow>
          let registrationParams = (spread (sipCredentials s) params)\<lparr>register := Some True\<rparr>
          in (s\<lparr>callState := ''registering'', sipCredentials := registrationParams\<rparr>,
              [PluginSend
                 (RegisterRequest (username registrationParams) (displayName registrationParams)
                    (authuser registrationParams) (secret registrationParams)
                    (proxy registrationParams) (userAgent registrationParams) True)
                 None]))"

text \<open>\<^verbatim>\<open>handleUnregister\<close> (the same text in the three components).\<close>

definition handleUnregister :: "AppState \<Rightarrow> AppState \<times> action list" where
  "handleUnregister s =
     (if sipPlugin s = None \<or> \<not> isRegistered s then (s, [])
      else (s, [PluginSend UnregisterRequest None]))"

definition call_error :: "string \<Rightarrow> WebViewMessage" where
  "call_error e = \<lparr>type = ''CALL_ERROR'', payload = [(''error'', Str e), (''callState'', Str ''error'')]\<rparr>"

text \<open>\<^verbatim>\<open>sipCredentials.proxy?.split("sip:")[1]\<close>.\<close>

definition proxyDomain :: "RegistrationPayload \<Rightarrow> string option" where
  "proxyDomain c = (case proxy c of None \<Rightarrow> None | Some p \<Rightarrow> js_index (js_split p ''sip:'') 1)"

text \<open>
  \<^verbatim>\<open>makeCall\<close> of the current component, up to the call of \<^verbatim>\<open>createOffer\<close>; the two
  callbacks follow as functions of their closure.
\<close>

definition makeCall :: "AppState \<Rightarrow> string option \<Rightarrow> AppState \<times> action list" where
  "makeCall s number =
     (case sipPlugin s of
        None \<Rightarrow> (s\<lparr>callState := ''error''\<rparr>, [SendToWebViewParent (call_error ''SIP plugin not found'')])
      | Some plugin \<Rightarrow>
          (case number of
             None \<Rightarrow> (s\<lparr>callState := ''error''\<rparr>,
                       [SendToWebViewParent (call_error ''Phone number is required'')])
           | Some [] \<Rightarrow> (s\<lparr>callState := ''error''\<rparr>,
                          [SendToWebViewParent (call_error ''Phone number is required'')])
           | Some (d # ds) \<Rightarrow>
               (s\<lparr>currentCall := Some (d # ds), callState := ''calling'',
                   sipPlugin := Some (plugin\<lparr>doAudio := Some True, doVideo := Some False\<rparr>)\<rparr>,
                [CreateOffer [(''audio'', True, Some True)] (Some True)
                   \<lparr>cl_phoneNumber = d # ds,
                    cl_proxyDomain = proxyDomain (sipCredentials s),
                    cl_userAgent = userAgent (sipCredentials s)\<rparr>])))"

text \<open>\<^verbatim>\<open>a || b\<close> on an optional string.\<close>

fun or_else :: "string option \<Rightarrow> string \<Rightarrow> string" where
  "or_else (Some (c # cs)) d = c # cs"
| "or_else uu d = d"

definition call_uri :: "OfferClosure \<Rightarrow> string" where
  "call_uri cl = ''sip:'' @ cl_phoneNumber cl @ ''@'' @ template (cl_proxyDomain cl)"

definition call_initiated :: "OfferClosure \<Rightarrow> WebViewMessage" where
  "call_initiated cl =
     \<lparr>type = ''CALL_INITIATED'',
      payload = [(''phoneNumber'', Str (cl_phoneNumber cl)), (''callState'', Str ''calling'')]\<rparr>"

definition makeCall_success :: "OfferClosure \<Rightarrow> JSEP \<Rightarrow> action list" where
  "makeCall_success cl jsep =
     [PluginSend
        (CallRequest (call_uri cl)
           (Some [(''User-Agent'', or_else (cl_userAgent cl) ''Janus WebRTC Client''),
                  (''X-Call-Type'', ''audio'')]))
        (Some jsep),
      SendToWebViewParent (call_initiated cl)]"

definition makeCall_error :: "AppState \<Rightarrow> string \<Rightarrow> AppState \<times> action list" where
  "makeCall_error s message =
     (s\<lparr>callState := ''error''\<rparr>, [SendToWebViewParent (call_error message)])"

text \<open>\<^verbatim>\<open>makeCall\<close> of \<^verbatim>\<open>part_000\<close>: no audio flags on the handle, no headers.\<close>

definition makeCall_part000 :: "AppState \<Rightarrow> string option \<Rightarrow> AppState \<times> action list" where
  "makeCall_part000 s number =
     (case sipPlugin s of
        None \<Rightarrow> (s\<lparr>callState := ''error''\<rparr>, [SendToWebViewParent (call_error ''SIP plugin not found'')])
      | Some plugin \<Rightarrow>
          (case number of
             None \<Rightarrow> (s\<lparr>callState := ''error''\<rparr>,
                       [SendToWebViewParent (call_error ''Phone number is required'')])
           | Some [] \<Rightarrow> (s\<lparr>callState := ''error''\<rparr>,
                          [SendToWebViewParent (call_error ''Phone number is required'')])
           | Some (d # ds) \<Rightarrow>
               (s\<lparr>currentCall := Some (d # ds), callState := ''calling''\<rparr>,
                [CreateOffer [(''audio'', True, None)] None
                   \<lparr>cl_phoneNumber = d # ds,
                    cl_proxyDomain = proxyDomain (sipCredentials s),
                    cl_userAgent = None\<rparr>])))"

definition makeCall_success_part000 :: "OfferClosure \<Rightarrow> JSEP \<Rightarrow> action list" where
  "makeCall_success_part000 cl jsep =
     [PluginSend (CallRequest (call_uri cl) None) (Some jsep),
      SendToWebViewParent (call_initiated cl)]"

text \<open>\<^verbatim>\<open>handleWebViewMessage\<close>, after \<^verbatim>\<open>JSON.parse\<close> has returned the message.\<close>

definition not_registered :: WebViewMessage where
  "not_registered =
     \<lparr>type = ''CALL_ERROR'', payload = [(''error'', Str ''Not registered with SIP server'')]\<rparr>"

definition handleWebViewMessage :: "AppState \<Rightarrow> HostMessage \<Rightarrow> AppState \<times> action list" where
  "handleWebViewMessage s message =
     (if host_type message = ''WEBVIEW_READY'' then (s, [])
      else if host_type message = ''REGISTER_SIP''
        then handleRegistration s (map_option credentials (host_payload message))
      else if host_type message = ''UNREGISTER_SIP'' then handleUnregister s
      else if host_type message = ''MAKE_CALL''
        then (if \<not> isRegistered s then (s, [SendToWebViewParent not_registered])
              else makeCall s (Option.bind (host_payload message) phoneNumber))
      else if host_type message = ''END_CALL''
        then (if sipPlugin s \<noteq> None \<and> truthy (currentCall s)
              then (s, [PluginSend HangupRequest None]) else (s, []))
      else (s, []))"

definition handleWebViewMessage_part000 :: "AppState \<Rightarrow> HostMessage \<Rightarrow> AppState \<times> action list" where
  "handleWebViewMessage_part000 s message =
     (if host_type message = ''WEBVIEW_READY'' then (s\<lparr>isWebViewReady := True\<rparr>, [])
      else if host_type message = ''REGISTER_SIP''
        then handleRegistration s (map_option credentials (host_payload message))
      else if host_type message = ''UNREGISTER_SIP'' then handleUnregister s
      else if host_type message = ''MAKE_CALL''
        then (if \<not> isRegistered s then (s, [SendToWebViewParent not_registered])
              else makeCall_part000 s (Option.bind (host_payload message) phoneNumber))
      else if host_type message = ''END_CALL''
        then (if sipPlugin s \<noteq> None \<and> truthy (currentCall s)
              then (s, [PluginSend HangupRequest None]) else (s, []))
      else (s, []))"

section \<open>Events of the plugin\<close>

text \<open>\<^verbatim>\<open>result?.event\<close>, and the value of a truthy optional string.\<close>

definition result_event :: "Message \<Rightarrow> string option" where
  "result_event msg = (case result msg of None \<Rightarrow> None | Some r \<Rightarrow> event r)"

fun populated :: "string option \<Rightarrow> string option" where
  "populated (Some (c # cs)) = Some (c # cs)"
| "populated uu = None"

definition status_message :: "string \<Rightarrow> string \<Rightarrow> WebViewMessage" where
  "status_message t v = \<lparr>type = t, payload = [(''status'', Str v)]\<rparr>"

definition sip_error :: "Message \<Rightarrow> WebViewMessage" where
  "sip_error msg =
     \<lparr>type = ''SIP_ERROR'',
      payload = [(''error'', of_string (error msg)), (''callState'', Str ''error'')]\<rparr>"

text \<open>\<^verbatim>\<open>sipPlugin?.handleRemoteJsep(...)\<close> under \<^verbatim>\<open>if (jsep)\<close>; the flag tells whether callbacks are passed.\<close>

definition remote_jsep :: "AppState \<Rightarrow> JSEP option \<Rightarrow> bool \<Rightarrow> action list" where
  "remote_jsep s jsep callbacks =
     (case jsep of
        None \<Rightarrow> []
      | Some j \<Rightarrow> (if sipPlugin s = None then [] else [HandleRemoteJsep j callbacks]))"

definition jsep_success :: "action list" where
  "jsep_success =
     [SendToWebViewParent \<lparr>type = ''JSEP_SUCCESS'', payload = [(''callState'', Str ''connected'')]\<rparr>]"

definition jsep_error :: "string \<Rightarrow> action list" where
  "jsep_error e = [SendToWebViewParent \<lparr>type = ''JSEP_ERROR'', payload = [(''error'', Str e)]\<rparr>]"

text \<open>The \<^verbatim>\<open>switch (result.event)\<close> of the current component; \<open>r\<close> is \<^verbatim>\<open>msg.result\<close>.\<close>

definition sip_switch ::
  "AppState \<Rightarrow> Message \<Rightarrow> SipPluginResult \<Rightarrow> JSEP option \<Rightarrow> string \<Rightarrow> AppState \<times> action list" where
  "sip_switch s msg r jsep e =
     (if e = ''registered''
        then (s\<lparr>isRegistered := True\<rparr>,
              [SendToWebViewParent (status_message ''REGISTRATION_SUCCESS'' ''registered'')])
      else if e = ''unregistered''
        then (s\<lparr>isRegistered := False\<rparr>,
              [SendToWebViewParent (status_message ''UNREGISTERED'' ''unregistered'')])
      else if e = ''calling''
        then (s, [SendToWebViewParent (status_message ''CALLING'' ''calling'')])
      else if e = ''incomingcall''
        then
          (let s1 = (case sipPlugin s of
                       None \<Rightarrow> s
                     | Some p \<Rightarrow> s\<lparr>sipPlugin := Some (p\<lparr>callId := call_id msg\<rparr>)\<rparr>);
               negotiated = populated (case jsep of None \<Rightarrow> None | Some j \<Rightarrow> sdp j);
               audio = (case negotiated of None \<Rightarrow> True | Some d \<Rightarrow> js_includes d ''m=audio '');
               video = (case negotiated of None \<Rightarrow> False | Some d \<Rightarrow> js_includes d ''m=video '')
           in (s1, [SendToWebViewParent
                      \<lparr>type = ''INCOMING_CALL'',
                       payload = [(''from'', of_string (res_username r)),
                                  (''hasAudio'', Bool audio),
                                  (''hasVideo'', Bool video),
                                  (''callId'', of_string (call_id msg))]\<rparr>]))
      else if e = ''accepting''
        then (s, [SendToWebViewParent (status_message ''ACCEPTING'' ''accepting'')])
      else if e = ''progress''
        then (s, SendToWebViewParent (status_message ''CALL_PROGRESS'' ''progress'') #
                 remote_jsep s jsep False)
      else if e = ''accepted''
        then (s, SendToWebViewParent (status_message ''CALL_ACCEPTED'' ''accepted'') #
                 remote_jsep s jsep False)
      else if e = ''hangup''
        then (s\<lparr>currentCall := None, callState := ''ended''\<rparr>,
              [SendToWebViewParent
                 \<lparr>type = ''CALL_ENDED'',
                  payload = [(''reason'', of_string (res_reason r)),
                             (''code'', of_number (res_code r))]\<rparr>])
      else (s, []))"

text \<open>\<^verbatim>\<open>handleSipMessage\<close> of the current component (lines 374 to 508).\<close>

definition handleSipMessage :: "AppState \<Rightarrow> Message \<Rightarrow> JSEP option \<Rightarrow> AppState \<times> action list" where
  "handleSipMessage s msg jsep =
     (let s1 = (case populated (result_event msg) of
                  None \<Rightarrow> s
                | Some e \<Rightarrow> s\<lparr>callState := e\<rparr>)
      in if truthy (error msg)
         then (s1\<lparr>callState := ''error''\<rparr>, [SendToWebViewParent (sip_error msg)])
         else
           let (s2, a2) =
                 (case result msg of
                    None \<Rightarrow> (s1, [])
                  | Some r \<Rightarrow>
                      (case populated (event r) of
                         None \<Rightarrow> (s1, [])
                       | Some e \<Rightarrow> sip_switch s1 msg r jsep e))
           in (s2, a2 @ remote_jsep s2 jsep True))"

text \<open>\<^verbatim>\<open>handleSipMessage\<close> of \<^verbatim>\<open>part_000\<close> (lines 276 to 337).\<close>

definition sip_status :: "Message \<Rightarrow> CallState \<Rightarrow> WebViewMessage" where
  "sip_status msg c =
     \<lparr>type = ''SIP_STATUS'',
      payload = [(''status'', Str (or_else (result_event msg) ''unknown'')),
                 (''data'', Data msg),
                 (''callState'', Str c)]\<rparr>"

definition handleSipMessage_part000 :: "AppState \<Rightarrow> Message \<Rightarrow> JSEP option \<Rightarrow> AppState \<times> action list" where
  "handleSipMessage_part000 s msg jsep =
     (let localCallState = (case populated (result_event msg) of
                              None \<Rightarrow> callState s
                            | Some e \<Rightarrow> e);
          s1 = (case populated (result_event msg) of
                  None \<Rightarrow> s
                | Some e \<Rightarrow> s\<lparr>callState := e\<rparr>)
      in if truthy (error msg)
         then (s1\<lparr>callState := ''error''\<rparr>, [SendToWebViewParent (sip_error msg)])
         else
           let s2 = (if result_event msg = Some ''registered'' then s1\<lparr>isRegistered := True\<rparr>
                     else if result_event msg = Some ''unregistered'' then s1\<lparr>isRegistered := False\<rparr>
                     else s1)
           in (s2, SendToWebViewParent (sip_status msg localCallState) # remote_jsep s2 jsep True))"

text \<open>
  \<^verbatim>\<open>handleSipMessage\<close> of the older component (lines 1181 to 1237): it never reads
  \<^verbatim>\<open>msg.error\<close> except to log it, and reports the call state of its closure.
\<close>

definition handleSipMessage_legacy :: "AppState \<Rightarrow> Message \<Rightarrow> JSEP option \<Rightarrow> AppState \<times> action list" where
  "handleSipMessage_legacy s msg jsep =
     (let s1 = (if result_event msg = Some ''registered''
                  then s\<lparr>isRegistered := True, callState := ''registered''\<rparr>
                else if result_event msg = Some ''unregistered''
                  then s\<lparr>isRegistered := False, callState := ''idle''\<rparr>
                else s);
          s2 = (if result_event msg = Some ''calling'' then s1\<lparr>callState := ''calling''\<rparr>
                else if result_event msg = Some ''ringing'' then s1\<lparr>callState := ''ringing''\<rparr>
                else if result_event msg = Some ''accepted'' then s1\<lparr>callState := ''connected''\<rparr>
                else if result_event msg = Some ''hangup''
                  then s1\<lparr>callState := ''ended'', currentCall := None\<rparr>
                else s1)
      in (s2, SendToWebViewParent (sip_status msg (callState s)) # remote_jsep s2 jsep True))"

section \<open>Track registry\<close>

text \<open>\<^verbatim>\<open>track.id.replace(/[{}]/g, "")\<close>.\<close>

definition trackId_of :: "string \<Rightarrow> string" where
  "trackId_of i = filter (\<lambda>c. c \<noteq> CHR ''{'' \<and> c \<noteq> CHR ''}'') i"

definition track_ready :: "string \<Rightarrow> string \<Rightarrow> string \<Rightarrow> string \<Rightarrow> bool \<Rightarrow> WebViewMessage" where
  "track_ready t k key v active =
     \<lparr>type = t,
      payload = [(''kind'', Str k), (key, Str v),
                 (''state'', Str (if active then ''added'' else ''removed''))]\<rparr>"

text \<open>
  \<^verbatim>\<open>onlocaltrack\<close> and \<^verbatim>\<open>onremotetrack\<close> of the current component. The spread with a
  computed key is \<^const>\<open>AList.update\<close>, \<^verbatim>\<open>delete\<close> is \<^const>\<open>AList.delete\<close>. Stopping the
  tracks of a removed local stream changes no state of the component.
\<close>

definition onlocaltrack :: "AppState \<Rightarrow> MediaStreamTrack \<Rightarrow> bool \<Rightarrow> AppState \<times> action list" where
  "onlocaltrack s track active =
     (let trackId = trackId_of (track_id track)
      in if \<not> active
         then (s\<lparr>localVideos := (if kind track = ''video'' then localVideos s - 1 else localVideos s),
                 localTracks := AList.delete trackId (localTracks s)\<rparr>, [])
         else (s\<lparr>localTracks := AList.update trackId [track] (localTracks s),
                 localVideos := (if kind track = ''video'' then localVideos s + 1 else localVideos s)\<rparr>,
               [SendToWebViewParent
                  (track_ready ''LOCAL_TRACK_READY'' (kind track) ''trackId'' trackId active)]))"

definition onremotetrack :: "AppState \<Rightarrow> MediaStreamTrack \<Rightarrow> string \<Rightarrow> bool \<Rightarrow> AppState \<times> action list" where
  "onremotetrack s track mid active =
     (if \<not> active
      then (s\<lparr>remoteVideos := (if kind track = ''video'' then remoteVideos s - 1 else remoteVideos s),
              remoteTracks := AList.delete mid (remoteTracks s)\<rparr>, [])
      else (s\<lparr>remoteTracks := AList.update mid [track] (remoteTracks s),
              remoteVideos := (if kind track = ''video'' then remoteVideos s + 1 else remoteVideos s)\<rparr>,
            [SendToWebViewParent
               (track_ready ''REMOTE_TRACK_READY'' (kind track) ''mid'' mid active)]))"

definition oncleanup :: "AppState \<Rightarrow> AppState \<times> action list" where
  "oncleanup s =
     (s\<lparr>localTracks := [], remoteTracks := [], localVideos := 0, remoteVideos := 0,
        callState := ''cleaned'', currentCall := None\<rparr>,
      [SendToWebViewParent \<lparr>type = ''SIP_CLEANUP'', payload = []\<rparr>])"

text \<open>The number of entries of a registry under one key.\<close>

definition entries :: "TrackState \<Rightarrow> string \<Rightarrow> nat" where
  "entries reg k = length (filter (\<lambda>p. fst p = k) reg)"

section \<open>Session lifecycle\<close>

definition MAX_RECONNECT_ATTEMPTS :: nat where
  "MAX_RECONNECT_ATTEMPTS = 3"

text \<open>
  \<^verbatim>\<open>initializeJanus\<close>: the call state is set and \<^verbatim>\<open>Janus.init\<close> constructs the session
  object in its callback, which assigns \<^verbatim>\<open>janus\<close>.
\<close>

definition initializeJanus :: "AppState \<Rightarrow> AppState \<times> action list" where
  "initializeJanus s = (s\<lparr>callState := ''initializing'', janus := True\<rparr>, [NewJanus])"

definition attachSipPlugin :: "AppState \<Rightarrow> AppState \<times> action list" where
  "attachSipPlugin s = (if \<not> janus s then (s, []) else (s, [Attach]))"

text \<open>The callbacks \<^verbatim>\<open>success\<close>, \<^verbatim>\<open>error\<close> and \<^verbatim>\<open>destroyed\<close> of the session object.\<close>

definition janus_success :: "AppState \<Rightarrow> AppState \<times> action list" where
  "janus_success s =
     (let (s1, a1) = attachSipPlugin (s\<lparr>reconnectAttempts := 0\<rparr>)
      in (s1, SendToWebViewParent \<lparr>type = ''JANUS_READY'', payload = []\<rparr> # a1))"

definition janus_error_message :: "string \<Rightarrow> WebViewMessage" where
  "janus_error_message e =
     \<lparr>type = ''JANUS_ERROR'',
      payload = [(''error'', Str e),
                 (''errorDetails'',
                  Obj [(''code'', Num 500), (''message'', Str ''Failed to create Janus session'')])]\<rparr>"

definition janus_error :: "AppState \<Rightarrow> string \<Rightarrow> AppState \<times> action list" where
  "janus_error s e =
     (let s1 = s\<lparr>callState := ''error''\<rparr>
      in if reconnectAttempts s1 < MAX_RECONNECT_ATTEMPTS
         then (s1\<lparr>reconnectAttempts := reconnectAttempts s1 + 1\<rparr>,
               [SendToWebViewParent (janus_error_message e), SetTimeout Reinitialize 5000])
         else (s1, [SendToWebViewParent (janus_error_message e)]))"

definition janus_destroyed :: "AppState \<Rightarrow> AppState \<times> action list" where
  "janus_destroyed s =
     (s\<lparr>isRegistered := False, callState := ''destroyed'', sipPlugin := None\<rparr>,
      [SendToWebViewParent \<lparr>type = ''JANUS_DESTROYED'', payload = []\<rparr>])"

text \<open>The callbacks \<^verbatim>\<open>success\<close> and \<^verbatim>\<open>error\<close> of \<^verbatim>\<open>janus.attach\<close>.\<close>

definition attach_success :: "AppState \<Rightarrow> SipPlugin \<Rightarrow> AppState \<times> action list" where
  "attach_success s pluginHandle =
     (s\<lparr>sipPlugin := Some pluginHandle, callState := ''ready''\<rparr>,
      [SendToWebViewParent \<lparr>type = ''SIP_READY'', payload = []\<rparr>])"

definition attach_error :: "AppState \<Rightarrow> string \<Rightarrow> AppState \<times> action list" where
  "attach_error s e =
     (s, [SendToWebViewParent
            \<lparr>type = ''SIP_ERROR'',
             payload = [(''error'', Str e),
                        (''errorDetails'',
                         Obj [(''code'', Num 501), (''message'', Str ''Failed to attach SIP plugin'')])]\<rparr>])"

text \<open>
  A run of the initialisation: \<open>outcomes\<close> tells, for each session object in turn, whether
  its creation succeeds or fails. A timer that was set fires and calls
  \<^verbatim>\<open>initializeJanus\<close> again; with no timer set the run is over. The run also ends when the
  outcomes are used up, the last session object still pending.
\<close>

datatype outcome = SessionCreated | SessionFailed string

fun is_retry :: "action \<Rightarrow> bool" where
  "is_retry (SetTimeout Reinitialize d) = True"
| "is_retry uu = False"

fun connect :: "AppState \<Rightarrow> outcome list \<Rightarrow> AppState \<times> action list" where
  "connect s [] = initializeJanus s"
| "connect s (SessionCreated # outcomes) =
     (let (s1, a1) = initializeJanus s;
          (s2, a2) = janus_success s1
      in (s2, a1 @ a2))"
| "connect s (SessionFailed e # outcomes) =
     (let (s1, a1) = initializeJanus s;
          (s2, a2) = janus_error s1 e
      in if list_ex is_retry a2
         then (let (s3, a3) = connect s2 outcomes in (s3, a1 @ a2 @ a3))
         else (s2, a1 @ a2))"

definition retries :: "action list \<Rightarrow> action list" where
  "retries as = filter is_retry as"

definition sessions :: "action list \<Rightarrow> nat" where
  "sessions as = length (filter (\<lambda>a. a = NewJanus) as)"

section \<open>The component as an event loop\<close>

text \<open>The state of the first render.\<close>

definition initial :: AppState where
  "initial =
     \<lparr>sipPlugin = None, isWebViewReady = False, callState = ''not_started'',
      currentCall = None, isRegistered = False, localTracks = [], remoteTracks = [],
      localVideos = 0, remoteVideos = 0,
      sipCredentials = \<lparr>username = None, displayName = None, authuser = None, secret = None,
                        proxy = None, userAgent = None, register = None\<rparr>,
      janus = False, reconnectAttempts = 0\<rparr>"

text \<open>
  The callback \<^verbatim>\<open>onmessage\<close> is the \<^verbatim>\<open>handleSipMessage\<close> of the first render: the effect
  that attaches the plugin has no dependencies, so the handle that this callback reads is
  the \<^verbatim>\<open>null\<close> of that render, while its writes reach the current state.
\<close>

definition onmessage :: "AppState \<Rightarrow> Message \<Rightarrow> JSEP option \<Rightarrow> AppState \<times> action list" where
  "onmessage s msg jsep =
     (let (s1, a1) = handleSipMessage (s\<lparr>sipPlugin := None\<rparr>) msg jsep
      in (s1\<lparr>sipPlugin := sipPlugin s\<rparr>, a1))"

datatype app_event =
    HostEvent HostMessage
  | PluginMessage Message "JSEP option"
  | OfferSucceeded OfferClosure JSEP
  | OfferFailed string
  | JanusCreated
  | JanusFailed string
  | JanusDestroyed
  | AttachSucceeded SipPlugin
  | AttachFailed string
  | LocalTrack MediaStreamTrack bool
  | RemoteTrack MediaStreamTrack string bool
  | Cleanup
  | TimerFired
  | MakeCallClicked
  | RegisterClicked

text \<open>The credentials of the button \<^verbatim>\<open>Register\<close>.\<close>

definition button_credentials :: RegistrationPayload where
  "button_credentials =
     \<lparr>username = Some ''sip:su_251950@103.230.84.119:5080'',
      displayName = Some ''su_251950'',
      authuser = Some ''su_251950'',
      secret = Some ''hJhGU0lI'',
      proxy = Some ''sip:103.230.84.119:5080'',
      userAgent = Some ''com.superfone'',
      register = None\<rparr>"

fun step :: "AppState \<Rightarrow> app_event \<Rightarrow> AppState \<times> action list" where
  "step s (HostEvent message) = handleWebViewMessage s message"
| "step s (PluginMessage msg jsep) = onmessage s msg jsep"
| "step s (OfferSucceeded cl jsep) = (s, makeCall_success cl jsep)"
| "step s (OfferFailed e) = makeCall_error s e"
| "step s JanusCreated = janus_success s"
| "step s (JanusFailed e) = janus_error s e"
| "step s JanusDestroyed = janus_destroyed s"
| "step s (AttachSucceeded pluginHandle) = attach_success s pluginHandle"
| "step s (AttachFailed e) = attach_error s e"
| "step s (LocalTrack track active) = onlocaltrack s track active"
| "step s (RemoteTrack track mid active) = onremotetrack s track mid active"
| "step s Cleanup = oncleanup s"
| "step s TimerFired = initializeJanus s"
| "step s MakeCallClicked = makeCall s (Some ''9999202499'')"
| "step s RegisterClicked = handleRegistration s (Some button_credentials)"

fun run :: "AppState \<Rightarrow> app_event list \<Rightarrow> AppState \<times> action list" where
  "run s [] = (s, [])"
| "run s (e # es) =
     (let (s1, a1) = step s e;
          (s2, a2) = run s1 es
      in (s2, a1 @ a2))"

text \<open>A plugin message that the handler takes as a registration: no error, event \<^verbatim>\<open>registered\<close>.\<close>

fun registers :: "app_event \<Rightarrow> bool" where
  "registers (PluginMessage msg jsep) =
     (\<not> truthy (error msg) \<and> result_event msg = Some ''registered'')"
| "registers uu = False"

section \<open>Observations on a trace\<close>

text \<open>The messages handed to \<^verbatim>\<open>sendToWebViewParent\<close>, and the requests handed to the plugin.\<close>

fun host_messages :: "action list \<Rightarrow> WebViewMessage list" where
  "host_messages [] = []"
| "host_messages (SendToWebViewParent m # as) = m # host_messages as"
| "host_messages (a # as) = host_messages as"

fun plugin_calls :: "action list \<Rightarrow> action list" where
  "plugin_calls [] = []"
| "plugin_calls (SendToWebViewParent m # as) = plugin_calls as"
| "plugin_calls (SetTimeout t d # as) = plugin_calls as"
| "plugin_calls (a # as) = a # plugin_calls as"

fun request_uris :: "action list \<Rightarrow> string list" where
  "request_uris [] = []"
| "request_uris (PluginSend (CallRequest uri headers) jsep # as) = uri # request_uris as"
| "request_uris (a # as) = request_uris as"

text \<open>\<^verbatim>\<open>handleUnregister\<close> invoked \<open>n\<close> times in a row.\<close>

fun unregister_times :: "nat \<Rightarrow> AppState \<Rightarrow> AppState \<times> action list" where
  "unregister_times 0 s = (s, [])"
| "unregister_times (Suc n) s =
     (let (s1, a1) = handleUnregister s;
          (s2, a2) = unregister_times n s1
      in (s2, a1 @ a2))"

section \<open>Concrete inputs\<close>

definition example_handle :: SipPlugin where
  "example_handle = \<lparr>callId = None, doAudio = None, doVideo = None\<rparr>"

definition example_offer :: JSEP where
  "example_offer = \<lparr>jsep_type = ''offer'', sdp = Some ''v=0''\<rparr>"

text \<open>A state after attachment and registration, with the given proxy stored.\<close>

definition registered_with :: "string option \<Rightarrow> AppState" where
  "registered_with p =
     initial\<lparr>sipPlugin := Some example_handle, callState := ''registered'', isRegistered := True,
             sipCredentials := (sipCredentials initial)\<lparr>proxy := p\<rparr>\<rparr>"

text \<open>A state after a registration with the credentials of the button has succeeded.\<close>

definition registered_state :: AppState where
  "registered_state =
     initial\<lparr>sipPlugin := Some example_handle, callState := ''registered'', isRegistered := True,
             sipCredentials := button_credentials\<lparr>register := Some True\<rparr>\<rparr>"

definition failed_message :: Message where
  "failed_message = \<lparr>result = None, error = Some ''Missing session'', call_id = None\<rparr>"

definition hangup_message :: Message where
  "hangup_message =
     \<lparr>result = Some \<lparr>event = Some ''hangup'', res_username = None,
                     res_reason = Some ''Bye'', res_code = Some 200\<rparr>,
      error = None, call_id = None\<rparr>"

definition ringing_message :: Message where
  "ringing_message =
     \<lparr>result = Some \<lparr>event = Some ''ringing'', res_username = None,
                     res_reason = None, res_code = None\<rparr>,
      error = None, call_id = None\<rparr>"

definition make_call :: HostMessage where
  "make_call =
     \<lparr>host_type = ''MAKE_CALL'',
      host_payload = Some \<lparr>phoneNumber = Some ''5551234'', credentials = sipCredentials initial\<rparr>\<rparr>"

definition microphone :: MediaStreamTrack where
  "microphone = \<lparr>track_id = ''{7f3a}'', kind = ''audio''\<rparr>"

section \<open>\<^verbatim>\<open>MAKE_CALL\<close> before registration\<close>

lemma handleRegistration_isRegistered:
  "isRegistered (fst (handleRegistration s params)) = isRegistered s"
  by (simp add: handleRegistration_def Let_def split: option.splits)

lemma handleUnregister_isRegistered:
  "isRegistered (fst (handleUnregister s)) = isRegistered s"
  by (simp add: handleUnregister_def)

lemma makeCall_isRegistered:
  "isRegistered (fst (makeCall s number)) = isRegistered s"
  by (simp add: makeCall_def split: option.splits list.splits)

lemma handleWebViewMessage_isRegistered:
  "isRegistered (fst (handleWebViewMessage s message)) = isRegistered s"
  by (simp add: handleWebViewMessage_def handleRegistration_isRegistered
      handleUnregister_isRegistered makeCall_isRegistered)

lemma sip_switch_isRegistered:
  "isRegistered (fst (sip_switch s msg r jsep e)) =
     (if e = ''registered'' then True else if e = ''unregistered'' then False else isRegistered s)"
  by (simp add: sip_switch_def Let_def split: option.splits)

lemma populated_Some: "populated x = Some e \<Longrightarrow> x = Some e"
  by (cases x rule: populated.cases) auto

lemma handleSipMessage_isRegistered:
  assumes "\<not> isRegistered s"
    and "\<not> (\<not> truthy (error msg) \<and> result_event msg = Some ''registered'')"
  shows "\<not> isRegistered (fst (handleSipMessage s msg jsep))"
  using assms
  by (auto simp: handleSipMessage_def result_event_def Let_def split_beta sip_switch_isRegistered
      split: option.splits dest: populated_Some)

lemma step_isRegistered:
  assumes "\<not> isRegistered s" and "\<not> registers e"
  shows "\<not> isRegistered (fst (step s e))"
proof (cases e)
  case (PluginMessage msg jsep)
  then have "\<not> (\<not> truthy (error msg) \<and> result_event msg = Some ''registered'')"
    using assms(2) by simp
  from handleSipMessage_isRegistered [OF _ this, of "s\<lparr>sipPlugin := None\<rparr>" jsep] assms(1)
  show ?thesis by (simp add: PluginMessage onmessage_def split_beta)
qed (use assms(1) in \<open>simp_all add: handleWebViewMessage_isRegistered makeCall_isRegistered
      handleRegistration_isRegistered makeCall_error_def janus_success_def attachSipPlugin_def
      janus_error_def janus_destroyed_def attach_success_def attach_error_def onlocaltrack_def
      onremotetrack_def oncleanup_def initializeJanus_def Let_def\<close>)

lemma run_isRegistered:
  "\<not> isRegistered s \<Longrightarrow> \<forall>e \<in> set es. \<not> registers e \<Longrightarrow> \<not> isRegistered (fst (run s es))"
proof (induction es arbitrary: s)
  case Nil
  then show ?case by simp
next
  case (Cons e es)
  then have "\<not> isRegistered (fst (step s e))" by (simp add: step_isRegistered)
  with Cons show ?case by (simp add: split_beta)
qed

lemma make_call_guard:
  "\<not> isRegistered s \<Longrightarrow>
   handleWebViewMessage s \<lparr>host_type = ''MAKE_CALL'', host_payload = pl\<rparr> =
     (s, [SendToWebViewParent not_registered]) \<and>
   handleWebViewMessage_part000 s \<lparr>host_type = ''MAKE_CALL'', host_payload = pl\<rparr> =
     (s, [SendToWebViewParent not_registered])"
  by (simp add: handleWebViewMessage_def handleWebViewMessage_part000_def)

text \<open>
  Claim C1. Let the component start unregistered and handle any events none of which is a
  plugin message that registers. Then \<^verbatim>\<open>isRegistered\<close> is still false, and a \<^verbatim>\<open>MAKE_CALL\<close>
  message does one thing: it hands the \<^verbatim>\<open>CALL_ERROR\<close> message \<^verbatim>\<open>Not registered with SIP server\<close>
  to \<^verbatim>\<open>sendToWebViewParent\<close>. The returned action list holds nothing else, so neither
  \<^verbatim>\<open>createOffer\<close> nor a \<^verbatim>\<open>call\<close> request reaches the plugin, and the state is unchanged.
  The dispatcher of \<^verbatim>\<open>part_000\<close> does the same in every unregistered state.
\<close>

theorem make_call_requires_registration:
  assumes "\<not> isRegistered s" and "\<forall>e \<in> set es. \<not> registers e"
  shows "handleWebViewMessage (fst (run s es)) \<lparr>host_type = ''MAKE_CALL'', host_payload = pl\<rparr> =
           (fst (run s es), [SendToWebViewParent not_registered]) \<and>
         handleWebViewMessage_part000 s \<lparr>host_type = ''MAKE_CALL'', host_payload = pl\<rparr> =
           (s, [SendToWebViewParent not_registered])"
  using make_call_guard [OF run_isRegistered [OF assms]] make_call_guard [OF assms(1)] by simp

text \<open>
  Witness: the handle is attached, the button \<^verbatim>\<open>Register\<close> is pressed, the plugin answers
  with an event other than \<^verbatim>\<open>registered\<close>, and then \<^verbatim>\<open>MAKE_CALL\<close> arrives.
\<close>

theorem make_call_requires_registration_witness:
  "\<not> isRegistered initial \<and>
   \<not> registers (AttachSucceeded example_handle) \<and>
   \<not> registers RegisterClicked \<and>
   \<not> registers (PluginMessage ringing_message None) \<and>
   handleWebViewMessage
     (fst (run initial [AttachSucceeded example_handle, RegisterClicked,
                        PluginMessage ringing_message None]))
     \<lparr>host_type = ''MAKE_CALL'', host_payload = host_payload make_call\<rparr> =
     (fst (run initial [AttachSucceeded example_handle, RegisterClicked,
                        PluginMessage ringing_message None]),
      [SendToWebViewParent not_registered])"
proof -
  have h1: "\<not> isRegistered initial" by (simp add: initial_def)
  have h2: "\<forall>e \<in> set [AttachSucceeded example_handle, RegisterClicked,
                        PluginMessage ringing_message None]. \<not> registers e"
    by (simp add: ringing_message_def result_event_def)
  from make_call_requires_registration [OF h1 h2, of "host_payload make_call"] h1 h2
  show ?thesis by simp
qed

section \<open>\<^verbatim>\<open>REGISTER_SIP\<close> while registered\<close>

text \<open>
  The current component and \<^verbatim>\<open>part_000\<close> check \<^verbatim>\<open>isRegistered\<close> before anything else is
  done: one \<^verbatim>\<open>REGISTRATION_ERROR\<close> goes to the host, nothing goes to the plugin, and the state
  (credentials and call state included) stays as it is.
\<close>

lemma registration_guard:
  assumes "sipPlugin s = Some p" and "isRegistered s"
  shows "handleRegistration s params =
           (s, [SendToWebViewParent
                  \<lparr>type = ''REGISTRATION_ERROR'',
                   payload = [(''error'', Str ''Already registered with SIP server'')]\<rparr>])"
    and "handleWebViewMessage s \<lparr>host_type = ''REGISTER_SIP'', host_payload = pl\<rparr> =
           (s, [SendToWebViewParent
                  \<lparr>type = ''REGISTRATION_ERROR'',
                   payload = [(''error'', Str ''Already registered with SIP server'')]\<rparr>])"
    and "handleWebViewMessage_part000 s \<lparr>host_type = ''REGISTER_SIP'', host_payload = pl\<rparr> =
           (s, [SendToWebViewParent
                  \<lparr>type = ''REGISTRATION_ERROR'',
                   payload = [(''error'', Str ''Already registered with SIP server'')]\<rparr>])"
  using assms
  by (simp_all add: handleRegistration_def handleWebViewMessage_def handleWebViewMessage_part000_def)

lemma registration_guard_example:
  "handleRegistration registered_state (Some button_credentials) =
     (registered_state,
      [SendToWebViewParent
         \<lparr>type = ''REGISTRATION_ERROR'',
          payload = [(''error'', Str ''Already registered with SIP server'')]\<rparr>])"
proof -
  have h1: "sipPlugin registered_state = Some example_handle"
    by (simp add: registered_state_def)
  have h2: "isRegistered registered_state"
    by (simp add: registered_state_def)
  show ?thesis by (rule registration_guard(1) [OF h1 h2])
qed

text \<open>
  Claim C2, on the older component. Its \<^verbatim>\<open>handleRegistration\<close> has no such check: in a
  registered state with the handle attached it sets the call state to \<^verbatim>\<open>registering\<close>,
  stores the merged credentials and sends a \<^verbatim>\<open>register\<close> request to the plugin; the host
  receives no \<^verbatim>\<open>REGISTRATION_ERROR\<close>.
\<close>

theorem legacy_registration_while_registered:
  "handleRegistration_legacy registered_state (Some button_credentials) =
     (registered_state\<lparr>callState := ''registering''\<rparr>,
      [PluginSend
         (RegisterRequest (Some ''sip:su_251950@103.230.84.119:5080'') (Some ''su_251950'')
            (Some ''su_251950'') (Some ''hJhGU0lI'') (Some ''sip:103.230.84.119:5080'')
            (Some ''com.superfone'') True)
         None])"
  by (simp add: handleRegistration_legacy_def registered_state_def initial_def
      button_credentials_def)

section \<open>The call request\<close>

lemma proxy_example:
  "js_index (js_split ''sip:203.0.113.5:5080'' ''sip:'') (Suc 0) = Some ''203.0.113.5:5080''"
  by (simp add: js_split_def)

text \<open>
  Claim C3. With the handle attached and the proxy \<^verbatim>\<open>sip:203.0.113.5:5080\<close> stored,
  \<^verbatim>\<open>makeCall("5551234")\<close> asks for one offer, and when the offer succeeds the only call
  request sent to the plugin has the uri \<^verbatim>\<open>sip:5551234@203.0.113.5:5080\<close>. The same holds
  in \<^verbatim>\<open>part_000\<close>.
\<close>

theorem call_uri_example:
  assumes "sipPlugin s = Some p" and "proxy (sipCredentials s) = Some ''sip:203.0.113.5:5080''"
  shows "(\<exists>tracks trickle cl.
            snd (makeCall s (Some ''5551234'')) = [CreateOffer tracks trickle cl] \<and>
            request_uris (makeCall_success cl jsep) = [''sip:5551234@203.0.113.5:5080'']) \<and>
         (\<exists>tracks trickle cl.
            snd (makeCall_part000 s (Some ''5551234'')) = [CreateOffer tracks trickle cl] \<and>
            request_uris (makeCall_success_part000 cl jsep) = [''sip:5551234@203.0.113.5:5080''])"
  using assms
  by (simp add: makeCall_def makeCall_part000_def proxyDomain_def proxy_example
      makeCall_success_def makeCall_success_part000_def call_uri_def)

theorem call_uri_example_witness:
  "sipPlugin (registered_with (Some ''sip:203.0.113.5:5080'')) = Some example_handle \<and>
   proxy (sipCredentials (registered_with (Some ''sip:203.0.113.5:5080''))) =
     Some ''sip:203.0.113.5:5080'' \<and>
   (\<exists>tracks trickle cl.
      snd (makeCall (registered_with (Some ''sip:203.0.113.5:5080'')) (Some ''5551234'')) =
        [CreateOffer tracks trickle cl] \<and>
      request_uris (makeCall_success cl example_offer) = [''sip:5551234@203.0.113.5:5080''])"
proof -
  have h1: "sipPlugin (registered_with (Some ''sip:203.0.113.5:5080'')) = Some example_handle"
    by (simp add: registered_with_def)
  have h2: "proxy (sipCredentials (registered_with (Some ''sip:203.0.113.5:5080''))) =
              Some ''sip:203.0.113.5:5080''"
    by (simp add: registered_with_def)
  from call_uri_example [OF h1 h2, of example_offer] h1 h2 show ?thesis by blast
qed

lemma split_from_absent:
  "sep \<noteq> [] \<Longrightarrow> \<not> js_includes q sep \<Longrightarrow> split_from sep cur q = [rev cur @ q]"
  by (induction q arbitrary: cur) auto

lemma proxyDomain_absent:
  "proxy c = None \<or> (\<exists>q. proxy c = Some q \<and> \<not> js_includes q ''sip:'') \<Longrightarrow> proxyDomain c = None"
  by (auto simp: proxyDomain_def js_split_def split_from_absent)

text \<open>
  Claim C10. Let the handle be attached and the phone number be non-empty, and let either no
  proxy be stored or the stored proxy not contain \<^verbatim>\<open>sip:\<close>. Then \<^verbatim>\<open>makeCall\<close> reports
  nothing to the host and asks for one offer; when the offer succeeds, the call request
  goes to the plugin with the uri \<^verbatim>\<open>sip:<number>@undefined\<close>, and the only message to the
  host is \<^verbatim>\<open>CALL_INITIATED\<close>. The same holds in \<^verbatim>\<open>part_000\<close>.
\<close>

theorem missing_proxy_uri:
  assumes "sipPlugin s = Some p" and "number \<noteq> []"
    and "proxy (sipCredentials s) = None \<or>
         (\<exists>q. proxy (sipCredentials s) = Some q \<and> \<not> js_includes q ''sip:'')"
  shows "(\<exists>tracks trickle cl.
            snd (makeCall s (Some number)) = [CreateOffer tracks trickle cl] \<and>
            request_uris (makeCall_success cl jsep) = [''sip:'' @ number @ ''@undefined''] \<and>
            host_messages (makeCall_success cl jsep) = [call_initiated cl]) \<and>
         (\<exists>tracks trickle cl.
            snd (makeCall_part000 s (Some number)) = [CreateOffer tracks trickle cl] \<and>
            request_uris (makeCall_success_part000 cl jsep) = [''sip:'' @ number @ ''@undefined''] \<and>
            host_messages (makeCall_success_part000 cl jsep) = [call_initiated cl])"
proof -
  obtain d ds where n: "number = d # ds" using assms(2) by (cases number) auto
  have pd: "proxyDomain (sipCredentials s) = None" by (rule proxyDomain_absent [OF assms(3)])
  show ?thesis
    by (simp add: makeCall_def makeCall_part000_def n pd assms(1) makeCall_success_def
        makeCall_success_part000_def call_uri_def)
qed

text \<open>Witness: the proxy \<^verbatim>\<open>203.0.113.5:5080\<close>, stored without the scheme.\<close>

theorem missing_proxy_uri_witness:
  "sipPlugin (registered_with (Some ''203.0.113.5:5080'')) = Some example_handle \<and>
   ''5551234'' \<noteq> [] \<and>
   (proxy (sipCredentials (registered_with (Some ''203.0.113.5:5080''))) = None \<or>
    (\<exists>q. proxy (sipCredentials (registered_with (Some ''203.0.113.5:5080''))) = Some q \<and>
         \<not> js_includes q ''sip:'')) \<and>
   (\<exists>tracks trickle cl.
      snd (makeCall (registered_with (Some ''203.0.113.5:5080'')) (Some ''5551234'')) =
        [CreateOffer tracks trickle cl] \<and>
      request_uris (makeCall_success cl example_offer) = [''sip:5551234@undefined''] \<and>
      host_messages (makeCall_success cl example_offer) = [call_initiated cl])"
proof -
  have h1: "sipPlugin (registered_with (Some ''203.0.113.5:5080'')) = Some example_handle"
    by (simp add: registered_with_def)
  have h2: "''5551234'' \<noteq> []" by simp
  have h3: "proxy (sipCredentials (registered_with (Some ''203.0.113.5:5080''))) = None \<or>
    (\<exists>q. proxy (sipCredentials (registered_with (Some ''203.0.113.5:5080''))) = Some q \<and>
         \<not> js_includes q ''sip:'')"
    by (simp add: registered_with_def)
  from missing_proxy_uri [OF h1 h2 h3, of example_offer]
  have "\<exists>tracks trickle cl.
      snd (makeCall (registered_with (Some ''203.0.113.5:5080'')) (Some ''5551234'')) =
        [CreateOffer tracks trickle cl] \<and>
      request_uris (makeCall_success cl example_offer) = [''sip:5551234@undefined''] \<and>
      host_messages (makeCall_success cl example_offer) = [call_initiated cl]"
    by simp
  with h1 h2 h3 show ?thesis by blast
qed

section \<open>Plugin messages\<close>

text \<open>
  In the current component and in \<^verbatim>\<open>part_000\<close> a populated \<^verbatim>\<open>msg.error\<close> ends the handler
  early: the call state is \<^verbatim>\<open>error\<close> and the one action is the \<^verbatim>\<open>SIP_ERROR\<close> message.
\<close>

lemma error_branch:
  assumes "truthy (error msg)"
  shows "handleSipMessage s msg jsep =
           (s\<lparr>callState := ''error''\<rparr>, [SendToWebViewParent (sip_error msg)])"
    and "handleSipMessage_part000 s msg jsep =
           (s\<lparr>callState := ''error''\<rparr>, [SendToWebViewParent (sip_error msg)])"
  using assms
  by (simp_all add: handleSipMessage_def handleSipMessage_part000_def Let_def split: option.splits)

lemma error_branch_example:
  "handleSipMessage registered_state failed_message None =
     (registered_state\<lparr>callState := ''error''\<rparr>,
      [SendToWebViewParent (sip_error failed_message)])"
proof -
  have "truthy (error failed_message)" by (simp add: failed_message_def)
  then show ?thesis by (rule error_branch(1))
qed

text \<open>
  Claim C4, on the older component. Its \<^verbatim>\<open>handleSipMessage\<close> has no branch for
  \<^verbatim>\<open>msg.error\<close>: a message with a populated error and no result leaves the call state as
  it was (\<^verbatim>\<open>registered\<close> here, not \<^verbatim>\<open>error\<close>) and sends one \<^verbatim>\<open>SIP_STATUS\<close> message with the
  status \<^verbatim>\<open>unknown\<close>; no \<^verbatim>\<open>SIP_ERROR\<close> is sent.
\<close>

theorem legacy_error_reported_as_status:
  "handleSipMessage_legacy registered_state failed_message None =
     (registered_state,
      [SendToWebViewParent
         \<lparr>type = ''SIP_STATUS'',
          payload = [(''status'', Str ''unknown''), (''data'', Data failed_message),
                     (''callState'', Str ''registered'')]\<rparr>])"
  by (simp add: handleSipMessage_legacy_def registered_state_def initial_def failed_message_def
      result_event_def remote_jsep_def sip_status_def)

lemma populated_nonempty: "e \<noteq> [] \<Longrightarrow> populated (Some e) = Some e"
  by (cases e) auto

lemma sip_switch_callState:
  "callState (fst (sip_switch s msg r jsep e)) = (if e = ''hangup'' then ''ended'' else callState s)"
  by (simp add: sip_switch_def Let_def split: option.splits)

text \<open>
  Claim C9, as the code has it. For a plugin message with no populated error whose result
  carries a non-empty event name, the handler of \<^verbatim>\<open>part_000\<close> ends with the call state
  equal to that name, whatever it is; the handler of the current component does so for
  every name but \<^verbatim>\<open>hangup\<close>, whose case sets the call state to \<^verbatim>\<open>ended\<close>. Neither checks
  the name against a list of states.
\<close>

theorem call_state_follows_event:
  assumes "\<not> truthy (error msg)" and "result_event msg = Some e" and "e \<noteq> []"
  shows "callState (fst (handleSipMessage s msg jsep)) = (if e = ''hangup'' then ''ended'' else e) \<and>
         callState (fst (handleSipMessage_part000 s msg jsep)) = e"
proof -
  obtain r where r: "result msg = Some r" "event r = Some e"
    using assms(2) by (auto simp: result_event_def split: option.splits)
  have p: "populated (Some e) = Some e" by (rule populated_nonempty [OF assms(3)])
  have "callState (fst (handleSipMessage s msg jsep)) = (if e = ''hangup'' then ''ended'' else e)"
    using assms(1) r p
    by (simp add: handleSipMessage_def result_event_def Let_def split_beta sip_switch_callState)
  moreover have "callState (fst (handleSipMessage_part000 s msg jsep)) = e"
    using assms(1) r p
    by (simp add: handleSipMessage_part000_def result_event_def Let_def)
  ultimately show ?thesis by simp
qed

text \<open>Witness: the event \<^verbatim>\<open>ringing\<close>, which no case of the switch names.\<close>

theorem call_state_follows_event_witness:
  "\<not> truthy (error ringing_message) \<and> result_event ringing_message = Some ''ringing'' \<and>
   ''ringing'' \<noteq> [] \<and>
   callState (fst (handleSipMessage initial ringing_message None)) = ''ringing'' \<and>
   callState (fst (handleSipMessage_part000 initial ringing_message None)) = ''ringing''"
proof -
  have h1: "\<not> truthy (error ringing_message)" by (simp add: ringing_message_def)
  have h2: "result_event ringing_message = Some ''ringing''"
    by (simp add: ringing_message_def result_event_def)
  have h3: "''ringing'' \<noteq> []" by simp
  from call_state_follows_event [OF h1 h2 h3, of initial None] h1 h2 h3
  show ?thesis by simp
qed

text \<open>
  Claim C9 as stated fails in the current component at the event \<^verbatim>\<open>hangup\<close>: the message
  has no error, and the call state ends as \<^verbatim>\<open>ended\<close>, not as the event name.
\<close>

theorem hangup_ends_call_state:
  "\<not> truthy (error hangup_message) \<and> result_event hangup_message = Some ''hangup'' \<and>
   callState (fst (handleSipMessage initial hangup_message None)) = ''ended'' \<and>
   callState (fst (handleSipMessage initial hangup_message None)) \<noteq> ''hangup''"
  by (simp add: handleSipMessage_def hangup_message_def result_event_def sip_switch_def
      remote_jsep_def initial_def)

section \<open>Track registry: removal and re-addition\<close>

lemma entries_delete: "entries (AList.delete k reg) k = 0"
  by (induction reg) (auto simp: entries_def)

lemma entries_update_fresh: "entries reg k = 0 \<Longrightarrow> entries (AList.update k v reg) k = 1"
  by (induction reg) (auto simp: entries_def split: if_splits)

lemma map_of_delete: "map_of (AList.delete k reg) k = None"
  by (simp add: AList.delete_conv)

text \<open>
  Claim C5. A track-removed event leaves no entry under the key of the track: the local
  registry is keyed by the track id without braces, the remote one by the media-line
  identifier. After the events added, removed, added for tracks of one key, the registry
  has exactly one entry under that key. Both hold from every registry.
\<close>

theorem track_registry_remove_readd:
  assumes "trackId_of (track_id t2) = trackId_of (track_id t1)"
    and "trackId_of (track_id t3) = trackId_of (track_id t1)"
  shows "entries (localTracks (fst (onlocaltrack s t1 False))) (trackId_of (track_id t1)) = 0 \<and>
         map_of (localTracks (fst (onlocaltrack s t1 False))) (trackId_of (track_id t1)) = None \<and>
         entries (remoteTracks (fst (onremotetrack s r1 mid False))) mid = 0 \<and>
         map_of (remoteTracks (fst (onremotetrack s r1 mid False))) mid = None \<and>
         entries (localTracks
            (fst (onlocaltrack (fst (onlocaltrack (fst (onlocaltrack s t1 True)) t2 False)) t3 True)))
            (trackId_of (track_id t1)) = 1 \<and>
         entries (remoteTracks
            (fst (onremotetrack (fst (onremotetrack (fst (onremotetrack s r1 mid True)) r2 mid False))
               r3 mid True)))
            mid = 1"
  using assms
  by (simp add: onlocaltrack_def onremotetrack_def Let_def entries_delete entries_update_fresh
      map_of_delete)

theorem track_registry_remove_readd_witness:
  "trackId_of (track_id microphone) = ''7f3a'' \<and>
   entries (localTracks (fst (onlocaltrack initial microphone False))) ''7f3a'' = 0 \<and>
   entries (localTracks
      (fst (onlocaltrack (fst (onlocaltrack (fst (onlocaltrack initial microphone True))
         microphone False)) microphone True))) ''7f3a'' = 1 \<and>
   entries (remoteTracks
      (fst (onremotetrack (fst (onremotetrack (fst (onremotetrack initial microphone ''0'' True))
         microphone ''0'' False)) microphone ''0'' True))) ''0'' = 1"
proof -
  have k: "trackId_of (track_id microphone) = ''7f3a''"
    by (simp add: microphone_def trackId_of_def)
  from track_registry_remove_readd [OF refl refl, of initial microphone microphone "''0''" microphone microphone]
  show ?thesis by (simp add: k)
qed

section \<open>Reconnection\<close>

lemma initializeJanus_attempts:
  "reconnectAttempts (fst (initializeJanus s)) = reconnectAttempts s"
  "snd (initializeJanus s) = [NewJanus]"
  by (simp_all add: initializeJanus_def)

lemma janus_error_cases:
  "reconnectAttempts s < 3 \<Longrightarrow>
     snd (janus_error s e) =
       [SendToWebViewParent (janus_error_message e), SetTimeout Reinitialize 5000] \<and>
     reconnectAttempts (fst (janus_error s e)) = Suc (reconnectAttempts s)"
  "\<not> reconnectAttempts s < 3 \<Longrightarrow>
     snd (janus_error s e) = [SendToWebViewParent (janus_error_message e)] \<and>
     reconnectAttempts (fst (janus_error s e)) = reconnectAttempts s"
  by (simp_all add: janus_error_def MAX_RECONNECT_ATTEMPTS_def)

lemma janus_success_actions:
  "retries (snd (janus_success s)) = [] \<and> sessions (snd (janus_success s)) = 0"
  by (simp add: janus_success_def attachSipPlugin_def retries_def sessions_def)

lemma connect_failed:
  "connect s (SessionFailed e # os) =
     (if reconnectAttempts s < 3
      then (fst (connect (fst (janus_error (fst (initializeJanus s)) e)) os),
            NewJanus # SendToWebViewParent (janus_error_message e) # SetTimeout Reinitialize 5000 #
            snd (connect (fst (janus_error (fst (initializeJanus s)) e)) os))
      else (fst (janus_error (fst (initializeJanus s)) e),
            [NewJanus, SendToWebViewParent (janus_error_message e)]))"
proof (cases "reconnectAttempts s < 3")
  case True
  then have "reconnectAttempts (fst (initializeJanus s)) < 3"
    by (simp add: initializeJanus_attempts)
  from janus_error_cases(1) [OF this, of e] True show ?thesis
    by (simp add: split_beta Let_def initializeJanus_attempts)
next
  case False
  then have "\<not> reconnectAttempts (fst (initializeJanus s)) < 3"
    by (simp add: initializeJanus_attempts)
  from janus_error_cases(2) [OF this, of e] False show ?thesis
    by (simp add: split_beta Let_def initializeJanus_attempts)
qed

lemma connect_created:
  "snd (connect s (SessionCreated # os)) = NewJanus # snd (janus_success (fst (initializeJanus s)))"
  by (simp add: split_beta Let_def initializeJanus_attempts)

lemma connect_retries:
  "reconnectAttempts s \<le> 3 \<Longrightarrow>
   length (retries (snd (connect s os))) \<le> 3 - reconnectAttempts s \<and>
   sessions (snd (connect s os)) \<le> 4 - reconnectAttempts s \<and>
   set (retries (snd (connect s os))) \<subseteq> {SetTimeout Reinitialize 5000}"
proof (induction os arbitrary: s)
  case Nil
  then show ?case by (simp add: retries_def sessions_def initializeJanus_attempts)
next
  case (Cons a os)
  show ?case
  proof (cases a)
    case SessionCreated
    then show ?thesis
      using Cons.prems janus_success_actions [of "fst (initializeJanus s)"]
      by (simp only: connect_created) (simp add: retries_def sessions_def)
  next
    case (SessionFailed e)
    show ?thesis
    proof (cases "reconnectAttempts s < 3")
      case True
      let ?s2 = "fst (janus_error (fst (initializeJanus s)) e)"
      have "reconnectAttempts ?s2 = Suc (reconnectAttempts s)"
        using janus_error_cases(1) [of "fst (initializeJanus s)" e] True
        by (simp add: initializeJanus_attempts)
      moreover from this True have "reconnectAttempts ?s2 \<le> 3" by simp
      ultimately show ?thesis
        using Cons.IH [of ?s2] True
        by (simp only: SessionFailed connect_failed) (auto simp: retries_def sessions_def)
    next
      case False
      with Cons.prems show ?thesis
        by (simp only: SessionFailed connect_failed) (simp add: retries_def sessions_def)
    qed
  qed
qed

lemma connect_four_failures:
  assumes "reconnectAttempts s = 0"
  shows "snd (connect s (SessionFailed e1 # SessionFailed e2 # SessionFailed e3 #
                         SessionFailed e4 # os)) =
     [NewJanus, SendToWebViewParent (janus_error_message e1), SetTimeout Reinitialize 5000,
      NewJanus, SendToWebViewParent (janus_error_message e2), SetTimeout Reinitialize 5000,
      NewJanus, SendToWebViewParent (janus_error_message e3), SetTimeout Reinitialize 5000,
      NewJanus, SendToWebViewParent (janus_error_message e4)]"
proof -
  let ?s1 = "fst (janus_error (fst (initializeJanus s)) e1)"
  let ?s2 = "fst (janus_error (fst (initializeJanus ?s1)) e2)"
  let ?s3 = "fst (janus_error (fst (initializeJanus ?s2)) e3)"
  have a1: "reconnectAttempts ?s1 = 1"
    using janus_error_cases(1) [of "fst (initializeJanus s)" e1] assms
    by (simp add: initializeJanus_attempts)
  have a2: "reconnectAttempts ?s2 = 2"
    using janus_error_cases(1) [of "fst (initializeJanus ?s1)" e2] a1
    by (simp add: initializeJanus_attempts)
  have a3: "reconnectAttempts ?s3 = 3"
    using janus_error_cases(1) [of "fst (initializeJanus ?s2)" e3] a2
    by (simp add: initializeJanus_attempts)
  show ?thesis
    by (simp only: connect_failed [of s] connect_failed [of ?s1] connect_failed [of ?s2]
        connect_failed [of ?s3] assms a1 a2 a3) simp
qed

text \<open>
  Claim C6, as the code has it. Starting with the counter at zero, whatever the outcomes
  of the session creations are, a run of the initialisation sets at most three timers for
  \<^verbatim>\<open>initializeJanus\<close>, each with the delay 5000, and creates at most four session objects.
  When the creation fails four times in a row, each of the first three failures sets the
  timer, and the fourth failure only reports \<^verbatim>\<open>JANUS_ERROR\<close>: the run ends there.
\<close>

theorem reconnect_bound:
  assumes "reconnectAttempts s = 0"
  shows "length (retries (snd (connect s outcomes))) \<le> 3 \<and>
         sessions (snd (connect s outcomes)) \<le> 4 \<and>
         (\<forall>a \<in> set (retries (snd (connect s outcomes))). a = SetTimeout Reinitialize 5000) \<and>
         snd (connect s (SessionFailed e1 # SessionFailed e2 # SessionFailed e3 #
                         SessionFailed e4 # outcomes)) =
           [NewJanus, SendToWebViewParent (janus_error_message e1), SetTimeout Reinitialize 5000,
            NewJanus, SendToWebViewParent (janus_error_message e2), SetTimeout Reinitialize 5000,
            NewJanus, SendToWebViewParent (janus_error_message e3), SetTimeout Reinitialize 5000,
            NewJanus, SendToWebViewParent (janus_error_message e4)]"
  using connect_retries [of s outcomes] connect_four_failures [OF assms] assms by auto

text \<open>Witness: five failures from the first render; the fifth outcome is never asked for.\<close>

theorem reconnect_bound_witness:
  "reconnectAttempts initial = 0 \<and>
   retries (snd (connect initial
      [SessionFailed ''a'', SessionFailed ''b'', SessionFailed ''c'', SessionFailed ''d'',
       SessionFailed ''e''])) =
     [SetTimeout Reinitialize 5000, SetTimeout Reinitialize 5000, SetTimeout Reinitialize 5000] \<and>
   sessions (snd (connect initial
      [SessionFailed ''a'', SessionFailed ''b'', SessionFailed ''c'', SessionFailed ''d'',
       SessionFailed ''e''])) = 4"
proof -
  have h: "reconnectAttempts initial = 0" by (simp add: initial_def)
  from reconnect_bound [OF h, of "[SessionFailed ''e'']" "''a''" "''b''" "''c''" "''d''"]
  have "snd (connect initial
      [SessionFailed ''a'', SessionFailed ''b'', SessionFailed ''c'', SessionFailed ''d'',
       SessionFailed ''e'']) =
     [NewJanus, SendToWebViewParent (janus_error_message ''a''), SetTimeout Reinitialize 5000,
      NewJanus, SendToWebViewParent (janus_error_message ''b''), SetTimeout Reinitialize 5000,
      NewJanus, SendToWebViewParent (janus_error_message ''c''), SetTimeout Reinitialize 5000,
      NewJanus, SendToWebViewParent (janus_error_message ''d'')]"
    by simp
  then show ?thesis using h by (simp add: retries_def sessions_def)
qed

text \<open>
  Claim C6 as stated fails at three failures in a row: the third failure sets the timer
  again, and a fourth session object is created.
\<close>

theorem third_failure_schedules_retry:
  "snd (connect initial [SessionFailed ''a'', SessionFailed ''b'', SessionFailed ''c'']) =
     [NewJanus, SendToWebViewParent (janus_error_message ''a''), SetTimeout Reinitialize 5000,
      NewJanus, SendToWebViewParent (janus_error_message ''b''), SetTimeout Reinitialize 5000,
      NewJanus, SendToWebViewParent (janus_error_message ''c''), SetTimeout Reinitialize 5000,
      NewJanus]"
  by (simp add: initial_def initializeJanus_def janus_error_def MAX_RECONNECT_ATTEMPTS_def)

section \<open>Delivery retries\<close>

lemma send_zero:
  "sendToWebViewParent env k m 0 =
     (case env k of Absent \<Rightarrow> [] | Delivers \<Rightarrow> [Posted m] | Throws \<Rightarrow> [Threw m])"
  by (subst sendToWebViewParent.simps) simp

lemma send_Suc:
  "sendToWebViewParent env k m (Suc n) =
     (case env k of
        Absent \<Rightarrow> []
      | Delivers \<Rightarrow> [Posted m]
      | Throws \<Rightarrow> Threw m # Timer (Resend m n) 1000 # sendToWebViewParent env (Suc k) m n)"
  by (subst sendToWebViewParent.simps) (simp split: bridge.splits)

lemma send_timers_bound: "length (timers (sendToWebViewParent env k m n)) \<le> n"
  by (induction n arbitrary: k)
    (auto simp: send_zero send_Suc timers_def
      split: bridge.splits)

lemma send_attempts_bound: "length (attempts (sendToWebViewParent env k m n)) \<le> Suc n"
  by (induction n arbitrary: k)
    (auto simp: send_zero send_Suc attempts_def
      split: bridge.splits)

lemma send_attempts_same: "set (attempts (sendToWebViewParent env k m n)) \<subseteq> {m}"
  by (induction n arbitrary: k)
    (auto simp: send_zero send_Suc attempts_def
      split: bridge.splits)

lemma send_timers_delay:
  "x \<in> set (timers (sendToWebViewParent env k m n)) \<Longrightarrow>
   snd x = 1000 \<and> (\<exists>r. fst x = Resend m r)"
proof (induction n arbitrary: k)
  case 0
  then show ?case
    by (auto simp: send_zero timers_def split: bridge.splits)
next
  case (Suc n)
  show ?case
  proof (cases "env k")
    case Throws
    then have "x = (Resend m n, 1000) \<or> x \<in> set (timers (sendToWebViewParent env (Suc k) m n))"
      using Suc.prems by (auto simp: send_Suc timers_def)
    then show ?thesis using Suc.IH by auto
  qed (use Suc.prems in \<open>auto simp: send_Suc timers_def\<close>)
qed

lemma send_all_throw:
  "(\<And>i. env i = Throws) \<Longrightarrow>
   sendToWebViewParent env k m 3 =
     [Threw m, Timer (Resend m 2) 1000, Threw m, Timer (Resend m 1) 1000,
      Threw m, Timer (Resend m 0) 1000, Threw m]"
  by (simp add: send_zero send_Suc numeral_3_eq_3)

text \<open>
  Claim C7. A call \<^verbatim>\<open>sendToWebViewParent(message)\<close>, with the default retry count 3, sets at
  most three timers, each with the delay 1000 and each for a resend of the same message,
  and makes at most four attempts in all, every one with the message it was given. When
  every attempt throws, the trace is the first attempt, three retries one timer apart, and
  nothing after the last throw.
\<close>

theorem delivery_retry_bound:
  "length (timers (sendToWebViewParent env k message 3)) \<le> 3 \<and>
   length (attempts (sendToWebViewParent env k message 3)) \<le> 4 \<and>
   (\<forall>m \<in> set (attempts (sendToWebViewParent env k message 3)). m = message) \<and>
   (\<forall>(t, d) \<in> set (timers (sendToWebViewParent env k message 3)).
      d = 1000 \<and> (\<exists>r. t = Resend message r)) \<and>
   ((\<forall>i. env i = Throws) \<longrightarrow>
      sendToWebViewParent env k message 3 =
        [Threw message, Timer (Resend message 2) 1000,
         Threw message, Timer (Resend message 1) 1000,
         Threw message, Timer (Resend message 0) 1000,
         Threw message])"
proof -
  have a: "length (attempts (sendToWebViewParent env k message 3)) \<le> 4"
    using send_attempts_bound [of env k message 3] by simp
  have b: "\<forall>m \<in> set (attempts (sendToWebViewParent env k message 3)). m = message"
    using send_attempts_same [of env k message 3] by auto
  have c: "\<forall>(t, d) \<in> set (timers (sendToWebViewParent env k message 3)).
      d = 1000 \<and> (\<exists>r. t = Resend message r)"
    using send_timers_delay [of _ env k message 3] by auto
  show ?thesis
    using a b c send_timers_bound [of env k message 3] send_all_throw [of env k message]
    by blast
qed

text \<open>Witness: a bridge that throws at every attempt.\<close>

theorem delivery_retry_bound_witness:
  "(\<forall>i. (\<lambda>i. Throws) i = Throws) \<and>
   attempts (sendToWebViewParent (\<lambda>i. Throws) 0 not_registered 3) =
     [not_registered, not_registered, not_registered, not_registered] \<and>
   timers (sendToWebViewParent (\<lambda>i. Throws) 0 not_registered 3) =
     [(Resend not_registered 2, 1000), (Resend not_registered 1, 1000),
      (Resend not_registered 0, 1000)]"
proof -
  from delivery_retry_bound [of "\<lambda>i. Throws" 0 not_registered]
  have "sendToWebViewParent (\<lambda>i. Throws) 0 not_registered 3 =
        [Threw not_registered, Timer (Resend not_registered 2) 1000,
         Threw not_registered, Timer (Resend not_registered 1) 1000,
         Threw not_registered, Timer (Resend not_registered 0) 1000,
         Threw not_registered]"
    by blast
  then show ?thesis by (simp add: attempts_def timers_def)
qed

section \<open>Unregistration\<close>

lemma unregister_once:
  "sipPlugin s = None \<or> \<not> isRegistered s \<Longrightarrow> handleUnregister s = (s, [])"
  by (simp add: handleUnregister_def)

text \<open>
  Claim C8. When no handle is attached or the component is not registered,
  \<^verbatim>\<open>handleUnregister\<close> returns the state it was given and no action: nothing goes to the
  plugin or to the host. Hence any number of invocations in a row leaves the state as it was
  and does nothing.
\<close>

theorem unregister_idempotent:
  assumes "sipPlugin s = None \<or> \<not> isRegistered s"
  shows "handleUnregister s = (s, []) \<and> unregister_times n s = (s, [])"
proof -
  have "unregister_times n s = (s, [])"
    by (induction n) (simp_all add: unregister_once [OF assms])
  then show ?thesis using unregister_once [OF assms] by simp
qed

theorem unregister_idempotent_witness:
  "(sipPlugin initial = None \<or> \<not> isRegistered initial) \<and>
   handleUnregister initial = (initial, []) \<and> unregister_times 2 initial = (initial, [])"
proof -
  have h: "sipPlugin initial = None \<or> \<not> isRegistered initial" by (simp add: initial_def)
  from unregister_idempotent [OF h, of 2] h show ?thesis by blast
qed

end
